theory Spec2Isabelle
  imports Main "HOL-Library.AList"
begin

section \<open>Strings and regular expressions of the form helpers\<close>

text \<open>
  A JavaScript string is a sequence of code units; the model uses \<^typ>\<open>string\<close>, so it
  covers the code units \<open>0x00\<close> to \<open>0xFF\<close>, and \<open>value.length\<close> is \<^const>\<open>length\<close>.
  In that range the white space of \<open>String.prototype.trim\<close> and of the regular
  expression class \<open>\s\<close> is TAB, LF, VT, FF, CR, SPACE and NO-BREAK SPACE.
\<close>

definition is_js_space :: "char \<Rightarrow> bool" where
  "is_js_space c =
     (c \<in> set [CHR 0x09, CHR 0x0A, CHR 0x0B, CHR 0x0C, CHR 0x0D, CHR 0x20, CHR 0xA0])"

definition trim :: "string \<Rightarrow> string" where
  "trim s = rev (dropWhile is_js_space (rev (dropWhile is_js_space s)))"

text \<open>
  The regular expressions of \<open>useForm.ts\<close> are written \<open>/^ ... $/\<close> without flags. The
  datatype below is the syntax between the two anchors: a character class \<open>[...]\<close>
  (\<open>Cls False\<close>) or \<open>[^...]\<close> (\<open>Cls True\<close>) over single characters, ranges and \<open>\s\<close>,
  sequencing and \<open>+\<close>. A literal character is the class of that one character.
  \<open>Nothing\<close>, \<open>Empty\<close>, \<open>Alt\<close> and \<open>Star\<close> do not occur in the source; the matcher
  needs them for what is left of an expression after it has read a character.
\<close>

datatype cls_item = One char | Range char char | Space

datatype regex =
    Nothing
  | Empty
  | Cls bool "cls_item list"
  | Alt regex regex
  | Seq regex regex
  | Plus regex
  | Star regex

fun item_has :: "cls_item \<Rightarrow> char \<Rightarrow> bool" where
  "item_has (One d) c = (c = d)"
| "item_has (Range lo hi) c =
     ((of_char lo :: nat) \<le> of_char c \<and> (of_char c :: nat) \<le> of_char hi)"
| "item_has Space c = is_js_space c"

definition cls_has :: "bool \<Rightarrow> cls_item list \<Rightarrow> char \<Rightarrow> bool" where
  "cls_has neg items c = (list_ex (\<lambda>i. item_has i c) items \<noteq> neg)"

fun nullable :: "regex \<Rightarrow> bool" where
  "nullable Nothing = False"
| "nullable Empty = True"
| "nullable (Cls neg items) = False"
| "nullable (Alt r s) = (nullable r \<or> nullable s)"
| "nullable (Seq r s) = (nullable r \<and> nullable s)"
| "nullable (Plus r) = nullable r"
| "nullable (Star r) = True"

fun deriv :: "char \<Rightarrow> regex \<Rightarrow> regex" where
  "deriv c Nothing = Nothing"
| "deriv c Empty = Nothing"
| "deriv c (Cls neg items) = (if cls_has neg items c then Empty else Nothing)"
| "deriv c (Alt r s) = Alt (deriv c r) (deriv c s)"
| "deriv c (Seq r s) =
     (if nullable r then Alt (Seq (deriv c r) s) (deriv c s) else Seq (deriv c r) s)"
| "deriv c (Plus r) = Seq (deriv c r) (Star r)"
| "deriv c (Star r) = Seq (deriv c r) (Star r)"

text \<open>
  \<open>/^r$/.test(s)\<close>: the whole of \<open>s\<close> has to match \<open>r\<close>. The expressions carry no
  \<open>g\<close> or \<open>y\<close> flag, so \<open>test\<close> keeps no position between calls.
\<close>

definition test_anchored :: "regex \<Rightarrow> string \<Rightarrow> bool" where
  "test_anchored r s = nullable (fold deriv s r)"

text \<open>The set of strings an expression stands for; the matcher is proved against it.\<close>

inductive_set star :: "string set \<Rightarrow> string set" for A :: "string set" where
  star_nil: "[] \<in> star A"
| star_app: "u \<in> A \<Longrightarrow> v \<in> star A \<Longrightarrow> u @ v \<in> star A"

definition conc :: "string set \<Rightarrow> string set \<Rightarrow> string set" where
  "conc A B = {u @ v |u v. u \<in> A \<and> v \<in> B}"

fun lang :: "regex \<Rightarrow> string set" where
  "lang Nothing = {}"
| "lang Empty = {[]}"
| "lang (Cls neg items) = {[c] |c. cls_has neg items c}"
| "lang (Alt r s) = lang r \<union> lang s"
| "lang (Seq r s) = conc (lang r) (lang s)"
| "lang (Plus r) = conc (lang r) (star (lang r))"
| "lang (Star r) = star (lang r)"

subsection \<open>The validators of \<open>useForm.ts\<close>\<close>

text \<open>\<open>/^[^\s@]+@[^\s@]+\.[^\s@]+$/\<close>\<close>

definition emailRegex :: regex where
  "emailRegex =
     Seq (Plus (Cls True [Space, One CHR ''@'']))
    (Seq (Cls False [One CHR ''@''])
    (Seq (Plus (Cls True [Space, One CHR ''@'']))
    (Seq (Cls False [One CHR ''.''])
         (Plus (Cls True [Space, One CHR ''@''])))))"

text \<open>\<open>/^[a-zA-Z0-9_]+$/\<close>\<close>

definition usernameRegex :: regex where
  "usernameRegex =
     Plus (Cls False [Range CHR ''a'' CHR ''z'', Range CHR ''A'' CHR ''Z'',
                      Range CHR ''0'' CHR ''9'', One CHR ''_''])"

text \<open>
  \<open>validators.required\<close>, \<open>validators.email\<close>, \<open>validators.username\<close> and
  \<open>validators.password\<close>. A string is falsy exactly when it is empty, so \<open>!value.trim()\<close>
  is \<open>trim v = []\<close> and \<open>!value\<close> is \<open>v = []\<close>.
\<close>

definition validators_required :: "string \<Rightarrow> string" where
  "validators_required v = (if trim v = [] then ''This field is required'' else [])"

definition validators_email :: "string \<Rightarrow> string" where
  "validators_email v =
     (if \<not> test_anchored emailRegex v then ''Please enter a valid email address'' else [])"

definition validators_username :: "string \<Rightarrow> string" where
  "validators_username v =
     (if trim v = [] then ''Username is required''
      else if length v < 3 then ''Username must be at least 3 characters''
      else if \<not> test_anchored usernameRegex v
        then ''Username can only contain letters, numbers, and underscores''
      else [])"

definition validators_password :: "string \<Rightarrow> string" where
  "validators_password v =
     (if v = [] then ''Password is required''
      else if length v < 8 then ''Password must be at least 8 characters''
      else [])"

text \<open>
  The e-mail pattern in the words of the specification,
  \<open>non-space-chars@non-space-chars.non-space-chars\<close>: the three runs exclude white space
  only.
\<close>

definition spec_email_pattern :: regex where
  "spec_email_pattern =
     Seq (Plus (Cls True [Space]))
    (Seq (Cls False [One CHR ''@''])
    (Seq (Plus (Cls True [Space]))
    (Seq (Cls False [One CHR ''.''])
         (Plus (Cls True [Space])))))"

text \<open>A run of the source's pattern: one or more characters, none white space, none \<open>@\<close>.\<close>

definition email_run :: "string \<Rightarrow> bool" where
  "email_run s = (s \<noteq> [] \<and> list_all (\<lambda>c. \<not> is_js_space c \<and> c \<noteq> CHR ''@'') s)"

text \<open>The letters, digits and underscore of the user name rule, one by one.\<close>

definition word_char :: "char \<Rightarrow> bool" where
  "word_char c =
     (c \<in> set ''abcdefghijklmnopqrstuvwxyz'' \<or> c \<in> set ''ABCDEFGHIJKLMNOPQRSTUVWXYZ''
      \<or> c \<in> set ''0123456789'' \<or> c = CHR ''_'')"

section \<open>The form-state controller \<open>useForm\<close>\<close>

text \<open>
  The error object \<open>Partial<Record<keyof T, string>>\<close> is an association list from field
  names to messages, in insertion order; an assignment \<open>errors.k = m\<close> is
  \<^const>\<open>AList.update\<close>, and \<open>Object.keys(errors).length > 0\<close> says that the list of
  its keys is not empty.
\<close>

type_synonym field_errors = "(string \<times> string) list"

record 'v form_state =
  "values" :: 'v
  errors :: field_errors
  isSubmitting :: bool

text \<open>
  What one run of \<open>handleSubmit\<close> does, in program order: the state setters it calls,
  the call of the caller's \<open>onSubmit\<close> and the \<open>console.error\<close> of the \<open>catch\<close> block.
\<close>

datatype ('v, 'e) form_event =
    PreventDefault
  | SetErrors field_errors
  | SetIsSubmitting bool
  | OnSubmit 'v
  | ConsoleError 'e

fun apply_event :: "('v, 'e) form_event \<Rightarrow> 'v form_state \<Rightarrow> 'v form_state" where
  "apply_event (SetErrors es) st = st\<lparr>errors := es\<rparr>"
| "apply_event (SetIsSubmitting b) st = st\<lparr>isSubmitting := b\<rparr>"
| "apply_event PreventDefault st = st"
| "apply_event (OnSubmit v) st = st"
| "apply_event (ConsoleError e) st = st"

text \<open>A run is the form state together with the events so far.\<close>

type_synonym ('v, 'e) run = "'v form_state \<times> ('v, 'e) form_event list"

definition emit :: "('v, 'e) form_event \<Rightarrow> ('v, 'e) run \<Rightarrow> ('v, 'e) run" where
  "emit ev r = (apply_event ev (fst r), snd r @ [ev])"

text \<open>
  The part of \<open>handleSubmit\<close> after validation: \<open>setIsSubmitting(true)\<close>, then
  \<open>try { await onSubmit(values) } catch (error) { console.error(...) } finally {
  setIsSubmitting(false) }\<close>. The callback is given by its outcome on the values:
  \<open>Inl e\<close> when it throws or its promise rejects with \<open>e\<close> (the \<open>await\<close> is inside the
  \<open>try\<close>, so both reach the \<open>catch\<close>), \<open>Inr ()\<close> when it completes. The first component
  of the result is how the \<open>try\<close> statement completes (\<open>Inl e\<close>: it throws \<open>e\<close>).
\<close>

definition submit_form ::
  "('v \<Rightarrow> 'e + unit) \<Rightarrow> 'v \<Rightarrow> ('v, 'e) run \<Rightarrow> ('e + unit) \<times> ('v, 'e) run" where
  "submit_form onSubmit vals r0 =
     (let r1 = emit (SetIsSubmitting True) r0;
          r2 = emit (OnSubmit vals) r1;
          (outcome, r3) =
             (case onSubmit vals of
                Inl error \<Rightarrow> (Inr (), emit (ConsoleError error) r2)
              | Inr u \<Rightarrow> (Inr u, r2))
      in (outcome, emit (SetIsSubmitting False) r3))"

text \<open>
  \<open>handleSubmit\<close>, with the optional \<open>validate\<close> as an option. \<open>values\<close> is the value
  captured by the callback, the one of the state the handler was created in. The
  result is the completion of the returned promise (\<open>Inl e\<close>: rejected with \<open>e\<close>), the
  form state after all setters, and the events.
\<close>

definition handleSubmit ::
  "('v \<Rightarrow> field_errors) option \<Rightarrow> ('v \<Rightarrow> 'e + unit) \<Rightarrow> 'v form_state
     \<Rightarrow> ('e + unit) \<times> ('v, 'e) run" where
  "handleSubmit validate onSubmit st =
     (let r0 = emit (SetErrors []) (emit PreventDefault (st, []))
      in case validate of
           Some validate' \<Rightarrow>
             (let validationErrors = validate' (values st)
              in if length (map fst validationErrors) > 0
                 then (Inr (), emit (SetErrors validationErrors) r0)
                 else submit_form onSubmit (values st) r0)
         | None \<Rightarrow> submit_form onSubmit (values st) r0)"

definition submit_called :: "('v, 'e) form_event list \<Rightarrow> bool" where
  "submit_called evs = list_ex (\<lambda>ev. case ev of OnSubmit v \<Rightarrow> True | _ \<Rightarrow> False) evs"

text \<open>Some field of an error object has a message that is not empty.\<close>

definition has_message :: "field_errors \<Rightarrow> bool" where
  "has_message es = list_ex (\<lambda>(k, m). m \<noteq> []) es"

text \<open>The test that makes \<open>handleSubmit\<close> return early: a validator whose result has a key.\<close>

definition validation_fails :: "('v \<Rightarrow> field_errors) option \<Rightarrow> 'v \<Rightarrow> bool" where
  "validation_fails validate vals =
     (case validate of None \<Rightarrow> False | Some validate' \<Rightarrow> validate' vals \<noteq> [])"

text \<open>The form state at the moment the callback is called: the setters before it applied.\<close>

definition state_at_submit :: "'v form_state \<Rightarrow> ('v, 'e) form_event list \<Rightarrow> 'v form_state" where
  "state_at_submit st evs =
     fold apply_event (takeWhile (\<lambda>ev. case ev of OnSubmit v \<Rightarrow> False | _ \<Rightarrow> True) evs) st"

subsection \<open>The registration page\<close>

record RegisterFormData =
  username :: string
  email :: string
  password :: string
  confirmPassword :: string
  first_name :: string
  last_name :: string

text \<open>
  \<open>RegisterPage.validateForm\<close>. \<open>if (usernameError)\<close> tests that the message is not
  empty; \<open>!==\<close> on two strings is inequality.
\<close>

definition validateForm :: "RegisterFormData \<Rightarrow> field_errors" where
  "validateForm vals =
     (let errors0 = [];
          usernameError = validators_username (username vals);
          errors1 = (if usernameError \<noteq> []
                     then AList.update ''username'' usernameError errors0 else errors0);
          emailError = validators_email (email vals);
          errors2 = (if emailError \<noteq> []
                     then AList.update ''email'' emailError errors1 else errors1);
          passwordError = validators_password (password vals);
          errors3 = (if passwordError \<noteq> []
                     then AList.update ''password'' passwordError errors2 else errors2);
          errors4 = (if password vals \<noteq> confirmPassword vals
                     then AList.update ''confirmPassword'' ''Passwords do not match'' errors3
                     else errors3)
      in errors4)"

section \<open>The theme resolver \<open>useTheme\<close>\<close>

datatype Theme = Light | Dark | System

fun theme_name :: "Theme \<Rightarrow> string" where
  "theme_name Light = ''light''"
| "theme_name Dark = ''dark''"
| "theme_name System = ''system''"

text \<open>
  The two state variables of the hook, the class list of the document root and the
  \<open>localStorage\<close> of the page. \<open>resolvedTheme\<close> has the type \<open>'light' | 'dark'\<close> in the
  source; here it shares the datatype, and that it is never \<open>System\<close> is proved.
\<close>

record theme_state =
  theme :: Theme
  resolvedTheme :: Theme
  classList :: "string set"
  themeStorage :: "string \<rightharpoonup> string"

text \<open>
  \<open>updateResolvedTheme\<close>; the argument is
  \<open>window.matchMedia('(prefers-color-scheme: dark)').matches\<close>.
\<close>

definition updateResolvedTheme :: "bool \<Rightarrow> theme_state \<Rightarrow> theme_state" where
  "updateResolvedTheme prefersDark st =
     (let newResolvedTheme =
            (if theme st = System then (if prefersDark then Dark else Light) else theme st)
      in st\<lparr>resolvedTheme := newResolvedTheme,
             classList := insert (theme_name newResolvedTheme)
                            (classList st - {''light'', ''dark''})\<rparr>)"

text \<open>The listener \<open>handleChange\<close> of the media query.\<close>

definition handleChange :: "bool \<Rightarrow> theme_state \<Rightarrow> theme_state" where
  "handleChange prefersDark st =
     (if theme st = System then updateResolvedTheme prefersDark st else st)"

definition setThemeAndPersist :: "Theme \<Rightarrow> theme_state \<Rightarrow> theme_state" where
  "setThemeAndPersist newTheme st =
     st\<lparr>theme := newTheme,
        themeStorage := (themeStorage st)(''theme'' \<mapsto> theme_name newTheme)\<rparr>"

definition toggleTheme :: "theme_state \<Rightarrow> theme_state" where
  "toggleTheme st = setThemeAndPersist (if resolvedTheme st = Light then Dark else Light) st"

section \<open>The API client\<close>

subsection \<open>JavaScript values\<close>

text \<open>
  The values the client handles at run time: what \<open>response.json()\<close> yields, what a
  property read yields (\<open>undefined\<close> for a missing property) and what is kept in
  \<open>accessToken\<close>. TypeScript's types are erased, so a response body is whatever JSON the
  server sent. A number is kept as the two things the client can observe of it: whether
  it is truthy (neither zero nor NaN) and its rendering as a string.
\<close>

datatype jsval =
    JUndefined
  | JNull
  | JBool bool
  | JNum bool string
  | JStr string
  | JArr "jsval list"
  | JObj "(string \<times> jsval) list"

fun truthy :: "jsval \<Rightarrow> bool" where
  "truthy JUndefined = False"
| "truthy JNull = False"
| "truthy (JBool b) = b"
| "truthy (JNum nonzero text) = nonzero"
| "truthy (JStr s) = (s \<noteq> [])"
| "truthy (JArr xs) = True"
| "truthy (JObj kvs) = True"

fun join_comma :: "string list \<Rightarrow> string" where
  "join_comma [] = []"
| "join_comma [s] = s"
| "join_comma (s # t # ss) = s @ '','' @ join_comma (t # ss)"

text \<open>
  The conversion to a string that a template literal, the \<open>Error\<close> constructor and
  \<open>localStorage.setItem\<close> apply. An array joins its elements with commas, \<open>null\<close> and
  \<open>undefined\<close> elements as empty strings.
\<close>

fun to_string :: "jsval \<Rightarrow> string" where
  "to_string JUndefined = ''undefined''"
| "to_string JNull = ''null''"
| "to_string (JBool b) = (if b then ''true'' else ''false'')"
| "to_string (JNum nonzero text) = text"
| "to_string (JStr s) = s"
| "to_string (JArr xs) =
     join_comma (map (\<lambda>x. if x = JNull \<or> x = JUndefined then [] else to_string x) xs)"
| "to_string (JObj kvs) = ''[object Object]''"

text \<open>
  The errors a promise of the client can reject with: the client's own \<open>ApiError\<close>
  (message and optional status), the \<open>SyntaxError\<close> of a body that is not JSON, and the
  \<open>TypeError\<close> of a failed \<open>fetch\<close> or of a property read on \<open>null\<close> or \<open>undefined\<close>.
\<close>

datatype js_error = ApiError string "nat option" | SyntaxError | TypeError

fun is_ApiError :: "js_error \<Rightarrow> bool" where
  "is_ApiError (ApiError message status) = True"
| "is_ApiError SyntaxError = False"
| "is_ApiError TypeError = False"

text \<open>
  A property read \<open>v.name\<close>, for the names the client reads (\<open>detail\<close>, \<open>error\<close>,
  \<open>access\<close>), none of which is defined on a prototype.
\<close>

fun get_prop :: "jsval \<Rightarrow> string \<Rightarrow> js_error + jsval" where
  "get_prop JUndefined name = Inl TypeError"
| "get_prop JNull name = Inl TypeError"
| "get_prop (JObj kvs) name = Inr (case map_of kvs name of None \<Rightarrow> JUndefined | Some v \<Rightarrow> v)"
| "get_prop v name = Inr JUndefined"

subsection \<open>The client and its storage\<close>

text \<open>
  The fields of the \<open>ApiClient\<close> object and the \<open>localStorage\<close> it reads and writes.
\<close>

record api_state =
  baseUrl :: string
  accessToken :: jsval
  localStorage :: "string \<rightharpoonup> string"

definition loadTokenFromStorage :: "api_state \<Rightarrow> api_state" where
  "loadTokenFromStorage st =
     st\<lparr>accessToken :=
          (case localStorage st ''access_token'' of None \<Rightarrow> JNull | Some s \<Rightarrow> JStr s)\<rparr>"

text \<open>
  The constructor, run on a page load over the storage the last page left behind.
\<close>

definition new_ApiClient :: "string \<Rightarrow> (string \<rightharpoonup> string) \<Rightarrow> api_state" where
  "new_ApiClient url storage =
     loadTokenFromStorage \<lparr>baseUrl = url, accessToken = JNull, localStorage = storage\<rparr>"

definition setAccessToken :: "jsval \<Rightarrow> api_state \<Rightarrow> api_state" where
  "setAccessToken token st =
     st\<lparr>accessToken := token,
        localStorage := (localStorage st)(''access_token'' \<mapsto> to_string token)\<rparr>"

definition clearAccessToken :: "api_state \<Rightarrow> api_state" where
  "clearAccessToken st =
     st\<lparr>accessToken := JNull,
        localStorage := (localStorage st)(''access_token'' := None)\<rparr>"

definition isAuthenticated :: "api_state \<Rightarrow> bool" where
  "isAuthenticated st = (accessToken st \<noteq> JNull)"

subsection \<open>Requests\<close>

text \<open>
  \<open>RequestInit\<close>, for the fields the client uses. \<open>body\<close> holds the value that
  \<open>JSON.stringify\<close> is applied to.
\<close>

record RequestInit =
  "method" :: "string option"
  body :: "jsval option"
  headers :: "(string \<rightharpoonup> string) option"
  credentials :: "string option"

text \<open>
  A \<open>Response\<close>: \<open>json_body\<close> is \<open>None\<close> when the body is not JSON, so that
  \<open>response.json()\<close> rejects. \<open>response.ok\<close> is that the status is in 200..299.
\<close>

record Response =
  status :: nat
  statusText :: string
  json_body :: "jsval option"

definition ok :: "Response \<Rightarrow> bool" where
  "ok r = (200 \<le> status r \<and> status r \<le> 299)"

text \<open>\<open>fetch\<close> either rejects (no answer from the server) or resolves with a response.\<close>

datatype fetch_outcome = NetworkFailure | Responded Response

type_synonym fetch_fn = "string \<Rightarrow> RequestInit \<Rightarrow> fetch_outcome"

text \<open>The decimal rendering of a status code in the template literal.\<close>

definition digit_char :: "nat \<Rightarrow> char" where
  "digit_char d = ''0123456789'' ! (d mod 10)"

fun show_nat :: "nat \<Rightarrow> string" where
  "show_nat n =
     (if n < 10 then [digit_char n] else show_nat (n div 10) @ [digit_char (n mod 10)])"

text \<open>
  The headers of a request: \<open>Content-Type\<close>, then the caller's headers spread over it,
  then \<open>Authorization\<close> when \<open>this.accessToken\<close> is truthy.
\<close>

definition request_headers :: "api_state \<Rightarrow> RequestInit \<Rightarrow> (string \<rightharpoonup> string)" where
  "request_headers st options =
     (let headers0 = [''Content-Type'' \<mapsto> ''application/json'']
                       ++ (case headers options of None \<Rightarrow> Map.empty | Some h \<Rightarrow> h)
      in if truthy (accessToken st)
         then headers0(''Authorization'' \<mapsto> ''Bearer '' @ to_string (accessToken st))
         else headers0)"

definition request_config :: "api_state \<Rightarrow> RequestInit \<Rightarrow> RequestInit" where
  "request_config st options =
     options\<lparr>headers := Some (request_headers st options), credentials := Some ''include''\<rparr>"

text \<open>
  How the \<open>try\<close> block of \<open>request\<close> ends. It either throws inside the block, which
  the \<open>catch\<close> clause handles, or it executes \<open>return response.json()\<close>. That
  statement has no \<open>await\<close>: the block is left with a pending promise, the promise of
  \<open>request\<close> takes over its later outcome, and a rejection of it is not an exception of
  the block (only \<open>return await response.json()\<close> would make it one).
\<close>

datatype try_result = Thrown js_error | Returned "js_error + jsval"

text \<open>
  The body of the \<open>try\<close> block. On a response that is not \<open>ok\<close>, \<open>errorData\<close> is the
  parsed body, or \<open>{}\<close> when parsing fails (\<open>.catch(() => ({}))\<close>); the message is
  \<open>errorData.detail || errorData.error || `HTTP ${status}: ${statusText}`\<close>.
\<close>

definition request_try :: "api_state \<Rightarrow> string \<Rightarrow> RequestInit \<Rightarrow> fetch_fn \<Rightarrow> try_result" where
  "request_try st endpoint options fetch =
     (case fetch (baseUrl st @ endpoint) (request_config st options) of
        NetworkFailure \<Rightarrow> Thrown TypeError
      | Responded response \<Rightarrow>
          if \<not> ok response then
            (let errorData = (case json_body response of None \<Rightarrow> JObj [] | Some v \<Rightarrow> v)
             in case get_prop errorData ''detail'' of
                  Inl e \<Rightarrow> Thrown e
                | Inr detail \<Rightarrow>
                    if truthy detail
                    then Thrown (ApiError (to_string detail) (Some (status response)))
                    else (case get_prop errorData ''error'' of
                            Inl e \<Rightarrow> Thrown e
                          | Inr err \<Rightarrow>
                              if truthy err
                              then Thrown (ApiError (to_string err) (Some (status response)))
                              else Thrown (ApiError
                                     (''HTTP '' @ show_nat (status response) @ '': ''
                                        @ statusText response)
                                     (Some (status response)))))
          else Returned (case json_body response of
                           None \<Rightarrow> Inl SyntaxError
                         | Some v \<Rightarrow> Inr v))"

text \<open>
  \<open>request\<close>: the \<open>catch\<close> clause rethrows an \<open>ApiError\<close> and replaces any other
  exception of the block; a returned promise settles as it does.
\<close>

definition request :: "api_state \<Rightarrow> string \<Rightarrow> RequestInit \<Rightarrow> fetch_fn \<Rightarrow> js_error + jsval" where
  "request st endpoint options fetch =
     (case request_try st endpoint options fetch of
        Thrown error \<Rightarrow>
          if is_ApiError error then Inl error
          else Inl (ApiError ''Network error or server unavailable'' None)
      | Returned promise \<Rightarrow> promise)"

subsection \<open>The endpoints\<close>

definition post_options :: "jsval option \<Rightarrow> RequestInit" where
  "post_options data =
     \<lparr>method = Some ''POST'', body = data, headers = None, credentials = None\<rparr>"

definition get_options :: RequestInit where
  "get_options = \<lparr>method = None, body = None, headers = None, credentials = None\<rparr>"

text \<open>
  \<open>register\<close>, \<open>login\<close> and \<open>refreshToken\<close> share their body: the request, then
  \<open>this.setAccessToken(response.access)\<close>, then \<open>return response\<close>. Each operation
  returns how its promise settles and the state it leaves.
\<close>

definition store_access ::
  "api_state \<Rightarrow> js_error + jsval \<Rightarrow> (js_error + jsval) \<times> api_state" where
  "store_access st result =
     (case result of
        Inl e \<Rightarrow> (Inl e, st)
      | Inr response \<Rightarrow>
          (case get_prop response ''access'' of
             Inl e \<Rightarrow> (Inl e, st)
           | Inr token \<Rightarrow> (Inr response, setAccessToken token st)))"

definition register :: "jsval \<Rightarrow> api_state \<Rightarrow> fetch_fn \<Rightarrow> (js_error + jsval) \<times> api_state" where
  "register data st fetch =
     store_access st (request st ''/auth/register/'' (post_options (Some data)) fetch)"

definition login :: "jsval \<Rightarrow> api_state \<Rightarrow> fetch_fn \<Rightarrow> (js_error + jsval) \<times> api_state" where
  "login data st fetch =
     store_access st (request st ''/auth/login/'' (post_options (Some data)) fetch)"

definition logout :: "api_state \<Rightarrow> fetch_fn \<Rightarrow> (js_error + unit) \<times> api_state" where
  "logout st fetch =
     (case request st ''/auth/logout/'' (post_options None) fetch of
        Inl e \<Rightarrow> (Inl e, st)
      | Inr response \<Rightarrow> (Inr (), clearAccessToken st))"

definition refreshToken :: "api_state \<Rightarrow> fetch_fn \<Rightarrow> (js_error + jsval) \<times> api_state" where
  "refreshToken st fetch =
     store_access st (request st ''/auth/refresh/'' (post_options None) fetch)"

definition getUserProfile :: "api_state \<Rightarrow> fetch_fn \<Rightarrow> (js_error + jsval) \<times> api_state" where
  "getUserProfile st fetch = (request st ''/auth/profile/'' get_options fetch, st)"

subsection \<open>The exported client\<close>

text \<open>
  \<open>API_BASE_URL\<close> when \<open>VITE_API_BASE_URL\<close> is not set, and the client
  \<open>apiClient = new ApiClient(API_BASE_URL)\<close> as a page load creates it.
\<close>

definition API_BASE_URL :: string where
  "API_BASE_URL = ''http://localhost:8000/api''"

definition apiClient :: "(string \<rightharpoonup> string) \<Rightarrow> api_state" where
  "apiClient storage = new_ApiClient API_BASE_URL storage"

section \<open>Example inputs\<close>

text \<open>A browser storage with no entry, and a server that gives every request one answer.\<close>

definition empty_storage :: "string \<rightharpoonup> string" where
  "empty_storage = Map.empty"

definition always :: "fetch_outcome \<Rightarrow> fetch_fn" where
  "always outcome url init = outcome"

definition answer :: "nat \<Rightarrow> string \<Rightarrow> jsval option \<Rightarrow> fetch_outcome" where
  "answer code text b = Responded \<lparr>status = code, statusText = text, json_body = b\<rparr>"

text \<open>The body of a login request.\<close>

definition login_data :: jsval where
  "login_data = JObj [(''username'', JStr ''al_1''), (''password'', JStr ''longenough1'')]"

text \<open>A \<open>LoginResponse\<close> as the server sends it.\<close>

definition login_response :: jsval where
  "login_response =
     JObj [(''access'', JStr ''tok456''),
           (''user'', JObj [(''id'', JNum True ''7''), (''username'', JStr ''al_1''),
                            (''email'', JStr ''a@b.c''), (''first_name'', JStr ''Al''),
                            (''last_name'', JStr [])])]"

text \<open>A client that holds the token \<open>tok123\<close>, in memory and in storage.\<close>

definition signed_in :: api_state where
  "signed_in = setAccessToken (JStr ''tok123'') (apiClient empty_storage)"

text \<open>
  A validator that returns \<open>{username: ''}\<close>, one that checks a single required field
  the way the pages do, a submit callback that completes and one that throws.
\<close>

definition key_only_validator :: "string \<Rightarrow> field_errors" where
  "key_only_validator v = [(''username'', [])]"

definition required_validator :: "string \<Rightarrow> field_errors" where
  "required_validator v =
     (let usernameError = validators_required v
      in if usernameError \<noteq> [] then AList.update ''username'' usernameError [] else [])"

definition completes :: "'v \<Rightarrow> string + unit" where
  "completes v = Inr ()"

definition throws :: "'v \<Rightarrow> string + unit" where
  "throws v = Inl ''boom''"

definition idle_form :: "'v \<Rightarrow> 'v form_state" where
  "idle_form v = \<lparr>values = v, errors = [], isSubmitting = False\<rparr>"

definition mismatched_registration :: RegisterFormData where
  "mismatched_registration =
     \<lparr>username = ''al_1'', email = ''a@b.c'', password = ''longenough1'',
      confirmPassword = ''longenough2'', first_name = ''Alice'', last_name = []\<rparr>"

definition system_theme :: theme_state where
  "system_theme =
     \<lparr>theme = System, resolvedTheme = Light, classList = {}, themeStorage = empty_storage\<rparr>"

section \<open>The matcher decides the language of an expression\<close>

lemma conc_nil_iff: "[] \<in> conc A B \<longleftrightarrow> [] \<in> A \<and> [] \<in> B"
  by (auto simp: conc_def)

lemma nullable_lang: "nullable r \<longleftrightarrow> [] \<in> lang r"
  by (induction r) (auto simp: conc_nil_iff intro: star_nil)

lemma star_cons_split:
  assumes "x \<in> star A" and "x = c # w"
  shows "\<exists>u v. w = u @ v \<and> c # u \<in> A \<and> v \<in> star A"
  using assms
proof (induction arbitrary: w rule: star.induct)
  case star_nil
  then show ?case by simp
next
  case (star_app u v)
  show ?case
  proof (cases u)
    case Nil
    with star_app show ?thesis by simp
  next
    case (Cons a u')
    with star_app.prems have "a = c" and "w = u' @ v" by simp_all
    with Cons star_app.hyps show ?thesis by blast
  qed
qed

lemma star_cons_iff:
  "c # w \<in> star A \<longleftrightarrow> (\<exists>u v. w = u @ v \<and> c # u \<in> A \<and> v \<in> star A)"
proof
  assume "c # w \<in> star A"
  then show "\<exists>u v. w = u @ v \<and> c # u \<in> A \<and> v \<in> star A"
    by (rule star_cons_split) simp
next
  assume "\<exists>u v. w = u @ v \<and> c # u \<in> A \<and> v \<in> star A"
  then obtain u v where "w = u @ v" "c # u \<in> A" "v \<in> star A" by blast
  then have "(c # u) @ v \<in> star A" by (intro star_app)
  with \<open>w = u @ v\<close> show "c # w \<in> star A" by simp
qed

lemma conc_cons_iff:
  "c # w \<in> conc A B \<longleftrightarrow>
     ([] \<in> A \<and> c # w \<in> B) \<or> (\<exists>u v. w = u @ v \<and> c # u \<in> A \<and> v \<in> B)"
  unfolding conc_def by (auto simp: Cons_eq_append_conv) 

lemma lang_deriv: "w \<in> lang (deriv c r) \<longleftrightarrow> c # w \<in> lang r"
proof (induction r arbitrary: w)
  case (Seq r s)
  then show ?case
    by (auto simp: conc_cons_iff nullable_lang) (auto simp: conc_def)
next
  case (Plus r)
  then show ?case
    by (auto simp: conc_cons_iff star_cons_iff) (auto simp: conc_def)
next
  case (Star r)
  then show ?case
    by (auto simp: star_cons_iff) (auto simp: conc_def)
qed auto

lemma fold_deriv_lang: "nullable (fold deriv w r) \<longleftrightarrow> w \<in> lang r"
  by (induction w arbitrary: r) (simp_all add: nullable_lang lang_deriv)

lemma test_anchored_lang: "test_anchored r w \<longleftrightarrow> w \<in> lang r"
  by (simp add: test_anchored_def fold_deriv_lang)


subsection \<open>The two patterns of the validators\<close>

lemma star_singletons:
  "w \<in> star {[c] |c. P c} \<longleftrightarrow> (\<forall>c\<in>set w. P c)"
proof
  assume "w \<in> star {[c] |c. P c}"
  then show "\<forall>c\<in>set w. P c"
    by (induction rule: star.induct) auto
next
  assume "\<forall>c\<in>set w. P c"
  then show "w \<in> star {[c] |c. P c}"
  proof (induction w)
    case Nil
    show ?case by (rule star_nil)
  next
    case (Cons a w)
    then have "[a] \<in> {[c] |c. P c}" and "w \<in> star {[c] |c. P c}" by auto
    then have "[a] @ w \<in> star {[c] |c. P c}" by (rule star_app)
    then show ?case by simp
  qed
qed

lemma conc_singletons:
  "w \<in> conc {[c] |c. P c} B \<longleftrightarrow> (\<exists>c v. w = c # v \<and> P c \<and> v \<in> B)"
proof
  assume "w \<in> conc {[c] |c. P c} B"
  then obtain u v where "w = u @ v" "u \<in> {[c] |c. P c}" "v \<in> B"
    unfolding conc_def by blast
  then show "\<exists>c v. w = c # v \<and> P c \<and> v \<in> B" by auto
next
  assume "\<exists>c v. w = c # v \<and> P c \<and> v \<in> B"
  then obtain c v where "w = [c] @ v" "P c" "v \<in> B" by auto
  then show "w \<in> conc {[c] |c. P c} B"
    unfolding conc_def by blast
qed

lemma lang_plus_cls:
  "w \<in> lang (Plus (Cls neg items)) \<longleftrightarrow> w \<noteq> [] \<and> (\<forall>c\<in>set w. cls_has neg items c)"
  by (cases w) (auto simp: conc_singletons star_singletons)

lemma lang_one: "w \<in> lang (Cls False [One d]) \<longleftrightarrow> w = [d]"
  by (auto simp: cls_has_def)

lemma email_cls: "cls_has True [Space, One CHR ''@''] c \<longleftrightarrow> \<not> is_js_space c \<and> c \<noteq> CHR ''@''"
  by (auto simp: cls_has_def)

lemma email_run_lang: "w \<in> lang (Plus (Cls True [Space, One CHR ''@''])) \<longleftrightarrow> email_run w"
  by (simp only: lang_plus_cls email_cls email_run_def list_all_iff)

lemma emailRegex_shape:
  "test_anchored emailRegex v \<longleftrightarrow>
     (\<exists>l d t. v = l @ ''@'' @ d @ ''.'' @ t \<and> email_run l \<and> email_run d \<and> email_run t)"
proof -
  have "test_anchored emailRegex v \<longleftrightarrow>
        v \<in> conc (lang (Plus (Cls True [Space, One CHR ''@''])))
             (conc (lang (Cls False [One CHR ''@'']))
             (conc (lang (Plus (Cls True [Space, One CHR ''@''])))
             (conc (lang (Cls False [One CHR ''.'']))
                   (lang (Plus (Cls True [Space, One CHR ''@'']))))))"
    by (simp add: test_anchored_lang emailRegex_def)
  also have "\<dots> \<longleftrightarrow>
     (\<exists>l d t. v = l @ ''@'' @ d @ ''.'' @ t \<and> email_run l \<and> email_run d \<and> email_run t)"
    unfolding conc_def mem_Collect_eq email_run_lang lang_one by blast
  finally show ?thesis .
qed

lemma char_eq_code: "c = d \<longleftrightarrow> (of_char c :: nat) = of_char d"
  by simp

lemma range_lower:
  "(97 \<le> (of_char c :: nat) \<and> (of_char c :: nat) \<le> 122) \<longleftrightarrow> c \<in> set ''abcdefghijklmnopqrstuvwxyz''"
proof -
  define n where "n = (of_char c :: nat)"
  have "c \<in> set ''abcdefghijklmnopqrstuvwxyz'' \<longleftrightarrow>
     n = 97 \<or> n = 98 \<or> n = 99 \<or> n = 100 \<or> n = 101 \<or> n = 102
     \<or> n = 103 \<or> n = 104 \<or> n = 105 \<or> n = 106 \<or> n = 107
     \<or> n = 108 \<or> n = 109 \<or> n = 110 \<or> n = 111 \<or> n = 112
     \<or> n = 113 \<or> n = 114 \<or> n = 115 \<or> n = 116 \<or> n = 117
     \<or> n = 118 \<or> n = 119 \<or> n = 120 \<or> n = 121 \<or> n = 122"
    unfolding n_def by (simp add: char_eq_code [of c])
  also have "\<dots> \<longleftrightarrow> 97 \<le> n \<and> n \<le> 122"
    by arith
  finally show ?thesis unfolding n_def by simp
qed

lemma range_upper:
  "(65 \<le> (of_char c :: nat) \<and> (of_char c :: nat) \<le> 90) \<longleftrightarrow> c \<in> set ''ABCDEFGHIJKLMNOPQRSTUVWXYZ''"
proof -
  define n where "n = (of_char c :: nat)"
  have "c \<in> set ''ABCDEFGHIJKLMNOPQRSTUVWXYZ'' \<longleftrightarrow>
     n = 65 \<or> n = 66 \<or> n = 67 \<or> n = 68 \<or> n = 69 \<or> n = 70
     \<or> n = 71 \<or> n = 72 \<or> n = 73 \<or> n = 74 \<or> n = 75 \<or> n = 76
     \<or> n = 77 \<or> n = 78 \<or> n = 79 \<or> n = 80 \<or> n = 81 \<or> n = 82
     \<or> n = 83 \<or> n = 84 \<or> n = 85 \<or> n = 86 \<or> n = 87 \<or> n = 88
     \<or> n = 89 \<or> n = 90"
    unfolding n_def by (simp add: char_eq_code [of c])
  also have "\<dots> \<longleftrightarrow> 65 \<le> n \<and> n \<le> 90"
    by arith
  finally show ?thesis unfolding n_def by simp
qed

lemma range_digit:
  "(48 \<le> (of_char c :: nat) \<and> (of_char c :: nat) \<le> 57) \<longleftrightarrow> c \<in> set ''0123456789''"
proof -
  define n where "n = (of_char c :: nat)"
  have "c \<in> set ''0123456789'' \<longleftrightarrow>
     n = 48 \<or> n = 49 \<or> n = 50 \<or> n = 51 \<or> n = 52 \<or> n = 53
     \<or> n = 54 \<or> n = 55 \<or> n = 56 \<or> n = 57"
    unfolding n_def by (simp add: char_eq_code [of c])
  also have "\<dots> \<longleftrightarrow> 48 \<le> n \<and> n \<le> 57"
    by arith
  finally show ?thesis unfolding n_def by simp
qed

lemma word_cls:
  "cls_has False [Range CHR ''a'' CHR ''z'', Range CHR ''A'' CHR ''Z'',
                  Range CHR ''0'' CHR ''9'', One CHR ''_''] c \<longleftrightarrow> word_char c"
  unfolding word_char_def range_lower [symmetric] range_upper [symmetric]
    range_digit [symmetric]
  by (simp add: cls_has_def)

lemma usernameRegex_shape:
  "test_anchored usernameRegex v \<longleftrightarrow> v \<noteq> [] \<and> list_all word_char v"
  unfolding test_anchored_lang usernameRegex_def lang_plus_cls word_cls
  by (simp add: list_all_iff)

section \<open>Validators\<close>

lemma trim_nonempty: "trim v \<noteq> [] \<Longrightarrow> v \<noteq> []"
  by (auto simp: trim_def)

text \<open>
  C8, amended. Each validator returns the empty string exactly on its valid inputs:
  \<open>required\<close> on strings that are not empty after trimming; \<open>email\<close> on strings
  \<open>l@d.t\<close> whose three parts are non-empty runs of characters that are neither white
  space nor \<open>@\<close>; \<open>username\<close> on strings not empty after trimming, of length at least
  3, made of letters, digits and underscores; \<open>password\<close> on strings of length at least
  8. The four examples of the specification evaluate as it says.
\<close>

theorem validators_exact:
  "(validators_required v = [] \<longleftrightarrow> trim v \<noteq> [])
   \<and> (validators_email v = [] \<longleftrightarrow>
        (\<exists>l d t. v = l @ ''@'' @ d @ ''.'' @ t \<and> email_run l \<and> email_run d \<and> email_run t))
   \<and> (validators_username v = [] \<longleftrightarrow> trim v \<noteq> [] \<and> 3 \<le> length v \<and> list_all word_char v)
   \<and> (validators_password v = [] \<longleftrightarrow> v \<noteq> [] \<and> 8 \<le> length v)
   \<and> validators_username ''ab'' = ''Username must be at least 3 characters''
   \<and> validators_email ''a@b'' = ''Please enter a valid email address''
   \<and> validators_password ''short'' = ''Password must be at least 8 characters''
   \<and> validators_password ''longenough1'' = []"
proof -
  have req: "validators_required v = [] \<longleftrightarrow> trim v \<noteq> []"
    by (simp add: validators_required_def)
  have em: "validators_email v = [] \<longleftrightarrow>
        (\<exists>l d t. v = l @ ''@'' @ d @ ''.'' @ t \<and> email_run l \<and> email_run d \<and> email_run t)"
    unfolding emailRegex_shape [symmetric] by (simp add: validators_email_def)
  have un: "validators_username v = [] \<longleftrightarrow>
        trim v \<noteq> [] \<and> 3 \<le> length v \<and> list_all word_char v"
  proof (cases "trim v = []")
    case True
    then show ?thesis by (simp add: validators_username_def)
  next
    case False
    with trim_nonempty [of v] have "v \<noteq> []" by simp
    with False show ?thesis
      by (simp add: validators_username_def usernameRegex_shape not_less)
  qed
  have pw: "validators_password v = [] \<longleftrightarrow> v \<noteq> [] \<and> 8 \<le> length v"
    by (auto simp: validators_password_def)
  have e1: "validators_username ''ab'' = ''Username must be at least 3 characters''"
    by (simp add: validators_username_def trim_def is_js_space_def)
  have e2: "validators_email ''a@b'' = ''Please enter a valid email address''"
    by (simp add: validators_email_def test_anchored_def emailRegex_def cls_has_def
        is_js_space_def)
  have e3: "validators_password ''short'' = ''Password must be at least 8 characters''"
    by (simp add: validators_password_def)
  have e4: "validators_password ''longenough1'' = []"
    by (simp add: validators_password_def)
  from e3 e4 have ex34: "validators_password ''short'' = ''Password must be at least 8 characters''
      \<and> validators_password ''longenough1'' = []" by (rule conjI)
  from e1 conjI [OF e2 ex34] have exs: "validators_username ''ab'' = ''Username must be at least 3 characters''
      \<and> validators_email ''a@b'' = ''Please enter a valid email address''
      \<and> validators_password ''short'' = ''Password must be at least 8 characters''
      \<and> validators_password ''longenough1'' = []" by (rule conjI)
  show ?thesis
    by (rule conjI [OF req conjI [OF em conjI [OF un conjI [OF pw exs]]]])
qed

theorem validators_exact_witness:
  "(\<exists>l d t. ''a@b.c'' = l @ ''@'' @ d @ ''.'' @ t
       \<and> email_run l \<and> email_run d \<and> email_run t)
   \<and> list_all word_char ''al_1''"
proof -
  have "validators_email ''a@b.c'' = []"
    by (simp add: validators_email_def test_anchored_def emailRegex_def cls_has_def
        is_js_space_def)
  moreover have "validators_username ''al_1'' = []"
    by (simp add: validators_username_def test_anchored_def usernameRegex_def cls_has_def
        trim_def is_js_space_def)
  ultimately show ?thesis
    using validators_exact [of "''a@b.c''", THEN conjunct2, THEN conjunct1]
      validators_exact [of "''al_1''", THEN conjunct2, THEN conjunct2, THEN conjunct1]
    by (simp only: simp_thms)
qed

theorem validators_email_spec_counterexample:
  "test_anchored spec_email_pattern ''a@@b.c'' \<and> validators_email ''a@@b.c'' \<noteq> []"
  by code_simp

section \<open>Form-state controller\<close>

lemma update_not_Nil: "AList.update k v al \<noteq> []"
  by (cases al) auto

lemma emit_events: "snd (emit ev r) = snd r @ [ev]"
  by (simp add: emit_def)

lemma emit_state: "fst (emit ev r) = apply_event ev (fst r)"
  by (simp add: emit_def)

lemma submit_called_append:
  "submit_called (xs @ ys) \<longleftrightarrow> submit_called xs \<or> submit_called ys"
  by (simp add: submit_called_def)

text \<open>The early return: the setters called, the state left, and no call of the callback.\<close>

lemma handleSubmit_blocked:
  assumes "validation_fails validate (values st)"
  obtains validate' where "validate = Some validate'"
    and "handleSubmit validate onSubmit st =
           (Inr (), st\<lparr>errors := validate' (values st)\<rparr>,
            [PreventDefault, SetErrors [], SetErrors (validate' (values st))])"
proof -
  from assms obtain f where f: "validate = Some f" "f (values st) \<noteq> []"
    by (auto simp: validation_fails_def split: option.splits)
  then have "handleSubmit validate onSubmit st =
           (Inr (), st\<lparr>errors := f (values st)\<rparr>,
            [PreventDefault, SetErrors [], SetErrors (f (values st))])"
    by (simp add: handleSubmit_def emit_def Let_def)
  with f(1) show thesis by (rule that)
qed

text \<open>The submission: the events in order, whatever the callback does.\<close>

lemma handleSubmit_submits:
  assumes "\<not> validation_fails validate (values st)"
  shows "handleSubmit validate onSubmit st =
           (Inr (), st\<lparr>errors := [], isSubmitting := False\<rparr>,
            [PreventDefault, SetErrors [], SetIsSubmitting True, OnSubmit (values st)]
            @ (case onSubmit (values st) of Inl e \<Rightarrow> [ConsoleError e] | Inr u \<Rightarrow> [])
            @ [SetIsSubmitting False])"
proof -
  have sub: "submit_form onSubmit (values st) (st\<lparr>errors := []\<rparr>, [PreventDefault, SetErrors []]) =
           (Inr (), st\<lparr>errors := [], isSubmitting := False\<rparr>,
            [PreventDefault, SetErrors [], SetIsSubmitting True, OnSubmit (values st)]
            @ (case onSubmit (values st) of Inl e \<Rightarrow> [ConsoleError e] | Inr u \<Rightarrow> [])
            @ [SetIsSubmitting False])"
    by (cases "onSubmit (values st)") (simp_all add: submit_form_def emit_def Let_def)
  show ?thesis
  proof (cases validate)
    case None
    with sub show ?thesis by (simp add: handleSubmit_def emit_def Let_def)
  next
    case (Some f)
    with assms have "f (values st) = []" by (simp add: validation_fails_def)
    with Some sub show ?thesis by (simp add: handleSubmit_def emit_def Let_def)
  qed
qed

lemma has_message_not_Nil: "has_message es \<Longrightarrow> es \<noteq> []"
  by (auto simp: has_message_def)

text \<open>
  C4, amended. \<open>handleSubmit\<close> returns early exactly when a validator is supplied and
  its result has at least one key, whether or not that key's message is empty; a
  non-empty message is one such case. Then all messages are set at once, the callback
  is not called and the submitting flag is not touched. Otherwise (no validator, or a
  result without keys) the callback is called once, in a state whose submitting flag is
  set; afterwards the flag is cleared, the returned promise is fulfilled whether the
  callback completes or throws, and what it throws is logged.
\<close>

theorem handleSubmit_by_keys:
  "(\<forall>validate'. validate = Some validate' \<and> has_message (validate' (values st))
       \<longrightarrow> validation_fails validate (values st))
   \<and> (validation_fails validate (values st) \<longrightarrow>
        (\<exists>validate'. validate = Some validate'
           \<and> snd (snd (handleSubmit validate onSubmit st))
               = [PreventDefault, SetErrors [], SetErrors (validate' (values st))]
           \<and> errors (fst (snd (handleSubmit validate onSubmit st))) = validate' (values st))
        \<and> \<not> submit_called (snd (snd (handleSubmit validate onSubmit st)))
        \<and> isSubmitting (fst (snd (handleSubmit validate onSubmit st))) = isSubmitting st
        \<and> fst (handleSubmit validate onSubmit st) = Inr ())
   \<and> (\<not> validation_fails validate (values st) \<longrightarrow>
        submit_called (snd (snd (handleSubmit validate onSubmit st)))
        \<and> count_list (snd (snd (handleSubmit validate onSubmit st))) (OnSubmit (values st)) = 1
        \<and> isSubmitting (state_at_submit st (snd (snd (handleSubmit validate onSubmit st))))
        \<and> \<not> isSubmitting (fst (snd (handleSubmit validate onSubmit st)))
        \<and> errors (fst (snd (handleSubmit validate onSubmit st))) = []
        \<and> fst (handleSubmit validate onSubmit st) = Inr ()
        \<and> (\<forall>e. onSubmit (values st) = Inl e
              \<longrightarrow> ConsoleError e \<in> set (snd (snd (handleSubmit validate onSubmit st)))))"
proof (intro conjI allI impI)
  fix validate'
  assume "validate = Some validate' \<and> has_message (validate' (values st))"
  then show "validation_fails validate (values st)"
    by (auto simp: validation_fails_def dest: has_message_not_Nil)
next
  assume b: "validation_fails validate (values st)"
  from b obtain f where f: "validate = Some f"
    and h: "handleSubmit validate onSubmit st =
           (Inr (), st\<lparr>errors := f (values st)\<rparr>,
            [PreventDefault, SetErrors [], SetErrors (f (values st))])"
    by (rule handleSubmit_blocked)
  from f h show "\<exists>validate'. validate = Some validate'
           \<and> snd (snd (handleSubmit validate onSubmit st))
               = [PreventDefault, SetErrors [], SetErrors (validate' (values st))]
           \<and> errors (fst (snd (handleSubmit validate onSubmit st))) = validate' (values st)"
    by simp
  from h show "\<not> submit_called (snd (snd (handleSubmit validate onSubmit st)))"
    by (simp add: submit_called_def)
  from h show "isSubmitting (fst (snd (handleSubmit validate onSubmit st))) = isSubmitting st"
    by simp
  from h show "fst (handleSubmit validate onSubmit st) = Inr ()"
    by simp
next
  assume nb: "\<not> validation_fails validate (values st)"
  note h = handleSubmit_submits [OF nb, of onSubmit]
  show "submit_called (snd (snd (handleSubmit validate onSubmit st)))"
    unfolding h by (simp add: submit_called_def)
  show "count_list (snd (snd (handleSubmit validate onSubmit st))) (OnSubmit (values st)) = 1"
    unfolding h by (simp split: sum.splits)
  show "isSubmitting (state_at_submit st (snd (snd (handleSubmit validate onSubmit st))))"
    unfolding h by (simp add: state_at_submit_def)
  show "\<not> isSubmitting (fst (snd (handleSubmit validate onSubmit st)))"
    unfolding h by simp
  show "errors (fst (snd (handleSubmit validate onSubmit st))) = []"
    unfolding h by simp
  show "fst (handleSubmit validate onSubmit st) = Inr ()"
    unfolding h by simp
  fix e
  assume "onSubmit (values st) = Inl e"
  then show "ConsoleError e \<in> set (snd (snd (handleSubmit validate onSubmit st)))"
    unfolding h by simp
qed

theorem handleSubmit_by_keys_witness:
  "has_message (required_validator (values (idle_form [])))
   \<and> validation_fails (Some required_validator) (values (idle_form []))
   \<and> \<not> submit_called (snd (snd (handleSubmit (Some required_validator) completes (idle_form []))))
   \<and> \<not> validation_fails (Some required_validator) (values (idle_form ''bob''))
   \<and> fst (handleSubmit (Some required_validator) throws (idle_form ''bob'')) = Inr ()
   \<and> ConsoleError ''boom''
        \<in> set (snd (snd (handleSubmit (Some required_validator) throws (idle_form ''bob''))))
   \<and> \<not> isSubmitting (fst (snd (handleSubmit (Some required_validator) throws (idle_form ''bob''))))"
proof -
  have m: "has_message (required_validator (values (idle_form [])))"
    by (simp add: has_message_def required_validator_def validators_required_def trim_def
        idle_form_def)
  have n: "\<not> validation_fails (Some required_validator) (values (idle_form ''bob''))"
    by (simp add: validation_fails_def required_validator_def validators_required_def
        trim_def is_js_space_def idle_form_def)
  have t: "throws (values (idle_form ''bob'')) = Inl ''boom''"
    by (simp add: throws_def)
  note a = handleSubmit_by_keys [of "Some required_validator" "idle_form []" completes]
  note b = handleSubmit_by_keys [of "Some required_validator" "idle_form ''bob''" throws]
  from a m have f: "validation_fails (Some required_validator) (values (idle_form []))"
    by blast
  with a have "\<not> submit_called
      (snd (snd (handleSubmit (Some required_validator) completes (idle_form []))))"
    by blast
  moreover from b n t
  have "fst (handleSubmit (Some required_validator) throws (idle_form ''bob'')) = Inr ()
    \<and> ConsoleError ''boom''
        \<in> set (snd (snd (handleSubmit (Some required_validator) throws (idle_form ''bob''))))
    \<and> \<not> isSubmitting
        (fst (snd (handleSubmit (Some required_validator) throws (idle_form ''bob''))))"
    by blast
  ultimately show ?thesis using m f n by blast
qed

theorem handleSubmit_empty_message_counterexample:
  "\<not> has_message (key_only_validator (values (idle_form ''bob'')))
   \<and> \<not> submit_called
        (snd (snd (handleSubmit (Some key_only_validator) completes (idle_form ''bob''))))"
  by (simp add: has_message_def key_only_validator_def handleSubmit_def emit_def
      submit_called_def idle_form_def Let_def)

section \<open>Registration\<close>

lemma validateForm_confirm:
  assumes "password vals \<noteq> confirmPassword vals"
  shows "map_of (validateForm vals) ''confirmPassword'' = Some ''Passwords do not match''"
    and "validateForm vals \<noteq> []"
  using assms by (simp_all add: validateForm_def Let_def update_conv' update_not_Nil)

text \<open>
  C6. When the password and its confirmation differ, \<open>validateForm\<close> yields the
  \<open>confirmPassword\<close> error, and \<open>handleSubmit\<close> with that validator sets the errors
  and returns without calling the submit callback, the only caller of \<open>register\<close>.
\<close>

theorem register_mismatch_blocks_submit:
  assumes "password (values st) \<noteq> confirmPassword (values st)"
  shows "map_of (validateForm (values st)) ''confirmPassword'' = Some ''Passwords do not match''
         \<and> \<not> submit_called (snd (snd (handleSubmit (Some validateForm) onSubmit st)))
         \<and> errors (fst (snd (handleSubmit (Some validateForm) onSubmit st)))
             = validateForm (values st)
         \<and> snd (snd (handleSubmit (Some validateForm) onSubmit st))
             = [PreventDefault, SetErrors [], SetErrors (validateForm (values st))]"
proof -
  note c = validateForm_confirm [OF assms]
  from c(2) have h: "handleSubmit (Some validateForm) onSubmit st =
      (Inr (), st\<lparr>errors := validateForm (values st)\<rparr>,
       [PreventDefault, SetErrors [], SetErrors (validateForm (values st))])"
    by (simp add: handleSubmit_def emit_def Let_def)
  from c(1) show ?thesis unfolding h by (simp add: submit_called_def)
qed

theorem register_mismatch_blocks_submit_witness:
  "password (values (idle_form mismatched_registration))
     \<noteq> confirmPassword (values (idle_form mismatched_registration))
   \<and> map_of (validateForm (values (idle_form mismatched_registration))) ''confirmPassword''
       = Some ''Passwords do not match''
   \<and> \<not> submit_called
        (snd (snd (handleSubmit (Some validateForm) completes (idle_form mismatched_registration))))"
proof -
  have h: "password (values (idle_form mismatched_registration))
     \<noteq> confirmPassword (values (idle_form mismatched_registration))"
    by (simp add: idle_form_def mismatched_registration_def)
  from register_mismatch_blocks_submit [OF h, of completes] h show ?thesis by blast
qed

section \<open>Theme\<close>

text \<open>
  C7. After \<open>updateResolvedTheme\<close> the resolved theme is the preference when that is
  light or dark, and for the preference system it is dark exactly when the media query
  matches; it is never system. \<open>toggleTheme\<close> sets the preference to dark when the
  resolved theme was light and to light when it was dark, never to system, and stores
  it; the next \<open>updateResolvedTheme\<close> then resolves to that preference.
\<close>

theorem theme_resolution_and_toggle:
  "(theme st = Light \<longrightarrow> resolvedTheme (updateResolvedTheme prefersDark st) = Light)
   \<and> (theme st = Dark \<longrightarrow> resolvedTheme (updateResolvedTheme prefersDark st) = Dark)
   \<and> (theme st = System \<longrightarrow>
        (resolvedTheme (updateResolvedTheme prefersDark st) = Dark \<longleftrightarrow> prefersDark)
        \<and> (resolvedTheme (updateResolvedTheme prefersDark st) = Light \<longleftrightarrow> \<not> prefersDark))
   \<and> resolvedTheme (updateResolvedTheme prefersDark st) \<noteq> System
   \<and> (resolvedTheme st = Light \<longrightarrow> theme (toggleTheme st) = Dark)
   \<and> (resolvedTheme st = Dark \<longrightarrow> theme (toggleTheme st) = Light)
   \<and> theme (toggleTheme st) \<noteq> System
   \<and> themeStorage (toggleTheme st) ''theme'' = Some (theme_name (theme (toggleTheme st)))
   \<and> resolvedTheme (updateResolvedTheme prefersDark' (toggleTheme st)) = theme (toggleTheme st)"
  by (cases "theme st"; cases "resolvedTheme st")
     (simp_all add: updateResolvedTheme_def toggleTheme_def setThemeAndPersist_def Let_def)

theorem theme_resolution_and_toggle_witness:
  "theme system_theme = System
   \<and> resolvedTheme (updateResolvedTheme True system_theme) = Dark
   \<and> theme (toggleTheme (updateResolvedTheme True system_theme)) = Light
   \<and> theme (toggleTheme system_theme) = Dark"
proof -
  have s: "theme system_theme = System" and l: "resolvedTheme system_theme = Light"
    by (simp_all add: system_theme_def)
  from theme_resolution_and_toggle [of system_theme True] s
  have d: "resolvedTheme (updateResolvedTheme True system_theme) = Dark" by blast
  from theme_resolution_and_toggle [of "updateResolvedTheme True system_theme"] d
  have "theme (toggleTheme (updateResolvedTheme True system_theme)) = Light" by blast
  moreover from theme_resolution_and_toggle [of system_theme] l
  have "theme (toggleTheme system_theme) = Dark" by blast
  ultimately show ?thesis using s d by blast
qed

section \<open>API client\<close>

subsection \<open>How a request settles\<close>

lemma request_network_failure:
  assumes "fetch (baseUrl st @ endpoint) (request_config st options) = NetworkFailure"
  shows "request st endpoint options fetch
           = Inl (ApiError ''Network error or server unavailable'' None)"
  using assms by (simp add: request_def request_try_def)

lemma request_ok_json:
  assumes "fetch (baseUrl st @ endpoint) (request_config st options) = Responded r"
    and "ok r" and "json_body r = Some v"
  shows "request st endpoint options fetch = Inr v"
  using assms by (simp add: request_def request_try_def)

lemma request_ok_not_json:
  assumes "fetch (baseUrl st @ endpoint) (request_config st options) = Responded r"
    and "ok r" and "json_body r = None"
  shows "request st endpoint options fetch = Inl SyntaxError"
  using assms by (simp add: request_def request_try_def)

lemma is_ApiError_iff: "is_ApiError e \<longleftrightarrow> (\<exists>message status. e = ApiError message status)"
  by (cases e) simp_all

lemma request_settles:
  "(\<exists>v. request st endpoint options fetch = Inr v)
   \<or> (\<exists>message status. request st endpoint options fetch = Inl (ApiError message status))
   \<or> request st endpoint options fetch = Inl SyntaxError"
  by (auto simp: request_def request_try_def Let_def is_ApiError_iff
      split: fetch_outcome.splits sum.splits option.splits)

lemma request_not_ok:
  assumes "fetch (baseUrl st @ endpoint) (request_config st options) = Responded r"
    and "\<not> ok r"
  shows "\<exists>message status. request st endpoint options fetch = Inl (ApiError message status)"
  using assms
  by (auto simp: request_def request_try_def Let_def is_ApiError_iff
      split: sum.splits option.splits)

lemma request_Inr:
  assumes "request st endpoint options fetch = Inr v"
  shows "\<exists>r. fetch (baseUrl st @ endpoint) (request_config st options) = Responded r
           \<and> ok r \<and> json_body r = Some v"
  using assms
  by (auto simp: request_def request_try_def Let_def
      split: fetch_outcome.splits if_splits sum.splits option.splits)

text \<open>
  The HTTP failure with a body that is a JSON object, or no JSON at all: the status is
  the response's, the message is \<open>detail\<close> if truthy, else \<open>error\<close> if truthy, else
  the fallback.
\<close>

lemma request_http_failure:
  assumes "fetch (baseUrl st @ endpoint) (request_config st options) = Responded r"
    and "\<not> ok r"
    and "errorData = (case json_body r of None \<Rightarrow> JObj [] | Some v \<Rightarrow> v)"
    and "get_prop errorData ''detail'' = Inr detail"
    and "get_prop errorData ''error'' = Inr err"
  shows "request st endpoint options fetch =
           Inl (ApiError
                 (if truthy detail then to_string detail
                  else if truthy err then to_string err
                  else ''HTTP '' @ show_nat (status r) @ '': '' @ statusText r)
                 (Some (status r)))"
  using assms by (simp add: request_def request_try_def Let_def del: show_nat.simps)

subsection \<open>Logout\<close>

text \<open>
  C1, amended. Whenever \<open>logout()\<close> is fulfilled, \<open>isAuthenticated()\<close> is false and
  the stored \<open>access_token\<close> is gone, and it is fulfilled whenever the server answers
  with a 2xx status and a JSON body. When the transport fails or the server answers
  with another status, \<open>logout()\<close> rejects with an \<open>ApiError\<close> and leaves the
  credential as it was, in memory and in storage.
\<close>

theorem logout_clears_on_success:
  "(fst (logout st fetch) = Inr () \<longrightarrow>
      \<not> isAuthenticated (snd (logout st fetch))
      \<and> localStorage (snd (logout st fetch)) ''access_token'' = None)
   \<and> (\<forall>r v. fetch (baseUrl st @ ''/auth/logout/'') (request_config st (post_options None))
              = Responded r \<and> ok r \<and> json_body r = Some v
          \<longrightarrow> fst (logout st fetch) = Inr ())
   \<and> (fetch (baseUrl st @ ''/auth/logout/'') (request_config st (post_options None))
         = NetworkFailure
       \<or> (\<exists>r. fetch (baseUrl st @ ''/auth/logout/'') (request_config st (post_options None))
                = Responded r \<and> \<not> ok r)
       \<longrightarrow> (\<exists>message status. fst (logout st fetch) = Inl (ApiError message status))
           \<and> snd (logout st fetch) = st)"
proof (intro conjI allI impI)
  assume "fst (logout st fetch) = Inr ()"
  then have s: "snd (logout st fetch) = clearAccessToken st"
    by (auto simp: logout_def split: sum.splits)
  show "\<not> isAuthenticated (snd (logout st fetch))"
    unfolding s by (simp add: isAuthenticated_def clearAccessToken_def)
  show "localStorage (snd (logout st fetch)) ''access_token'' = None"
    unfolding s by (simp add: clearAccessToken_def)
next
  fix r v
  assume "fetch (baseUrl st @ ''/auth/logout/'') (request_config st (post_options None))
            = Responded r \<and> ok r \<and> json_body r = Some v"
  then have "request st ''/auth/logout/'' (post_options None) fetch = Inr v"
    by (auto intro: request_ok_json)
  then show "fst (logout st fetch) = Inr ()"
    by (simp add: logout_def)
next
  assume "fetch (baseUrl st @ ''/auth/logout/'') (request_config st (post_options None))
         = NetworkFailure
       \<or> (\<exists>r. fetch (baseUrl st @ ''/auth/logout/'') (request_config st (post_options None))
                = Responded r \<and> \<not> ok r)"
  then have e: "\<exists>message status.
      request st ''/auth/logout/'' (post_options None) fetch = Inl (ApiError message status)"
    using request_network_failure [of fetch st "''/auth/logout/''" "post_options None"]
      request_not_ok [of fetch st "''/auth/logout/''" "post_options None"]
    by blast
  then show "\<exists>message status. fst (logout st fetch) = Inl (ApiError message status)"
    by (auto simp: logout_def)
  from e show "snd (logout st fetch) = st"
    by (auto simp: logout_def)
qed

lemma signed_in_token: "accessToken signed_in = JStr ''tok123''"
  by (simp add: signed_in_def setAccessToken_def)

lemma ok_answer: "ok \<lparr>status = code, statusText = text, json_body = b\<rparr> \<longleftrightarrow> 200 \<le> code \<and> code \<le> 299"
  by (simp add: ok_def)

theorem logout_clears_on_success_witness:
  "fst (logout signed_in (always (answer 200 ''OK'' (Some (JObj []))))) = Inr ()
   \<and> \<not> isAuthenticated (snd (logout signed_in (always (answer 200 ''OK'' (Some (JObj []))))))
   \<and> snd (logout signed_in (always NetworkFailure)) = signed_in"
proof -
  have a: "always (answer 200 ''OK'' (Some (JObj [])))
             (baseUrl signed_in @ ''/auth/logout/'') (request_config signed_in (post_options None))
           = Responded \<lparr>status = 200, statusText = ''OK'', json_body = Some (JObj [])\<rparr>
           \<and> ok \<lparr>status = 200, statusText = ''OK'', json_body = Some (JObj [])\<rparr>
           \<and> json_body \<lparr>status = 200, statusText = ''OK'', json_body = Some (JObj [])\<rparr>
               = Some (JObj [])"
    by (simp add: always_def answer_def ok_def)
  have n: "always NetworkFailure
             (baseUrl signed_in @ ''/auth/logout/'') (request_config signed_in (post_options None))
           = NetworkFailure"
    by (simp add: always_def)
  note t1 = logout_clears_on_success [of signed_in "always (answer 200 ''OK'' (Some (JObj [])))"]
  note t2 = logout_clears_on_success [of signed_in "always NetworkFailure"]
  from t1 a have f: "fst (logout signed_in (always (answer 200 ''OK'' (Some (JObj []))))) = Inr ()"
    by blast
  with t1 have "\<not> isAuthenticated (snd (logout signed_in (always (answer 200 ''OK'' (Some (JObj []))))))"
    by blast
  moreover from t2 n have "snd (logout signed_in (always NetworkFailure)) = signed_in"
    by blast
  ultimately show ?thesis using f by blast
qed

theorem logout_failure_counterexample:
  "fst (logout signed_in (always (answer 500 ''Internal Server Error'' None)))
     = Inl (ApiError ''HTTP 500: Internal Server Error'' (Some 500))
   \<and> isAuthenticated (snd (logout signed_in (always (answer 500 ''Internal Server Error'' None))))
   \<and> fst (logout signed_in (always NetworkFailure))
       = Inl (ApiError ''Network error or server unavailable'' None)
   \<and> isAuthenticated (snd (logout signed_in (always NetworkFailure)))"
proof -
  have "request signed_in ''/auth/logout/'' (post_options None)
          (always (answer 500 ''Internal Server Error'' None))
        = Inl (ApiError ''HTTP 500: Internal Server Error'' (Some 500))"
    by (simp add: request_def request_try_def always_def answer_def ok_def digit_char_def)
  moreover have "request signed_in ''/auth/logout/'' (post_options None) (always NetworkFailure)
        = Inl (ApiError ''Network error or server unavailable'' None)"
    by (simp add: request_def request_try_def always_def)
  ultimately show ?thesis
    by (simp add: logout_def isAuthenticated_def signed_in_token)
qed

subsection \<open>The kinds of failure\<close>

text \<open>
  C2, at the inputs where \<open>request\<close> departs from it. A 2xx response whose body is not
  JSON makes \<open>request\<close> reject with the \<open>SyntaxError\<close> of \<open>response.json()\<close>, which
  is not an \<open>ApiError\<close>: the promise is returned from the \<open>try\<close> block without
  \<open>await\<close>, so the \<open>catch\<close> clause never sees its rejection. A 400 response whose
  body is the JSON value \<open>null\<close> makes \<open>errorData.detail\<close> throw inside the block;
  the \<open>catch\<close> clause turns that into the transport error, without the status.
\<close>

theorem request_failure_kinds_at_failing_inputs:
  "request signed_in ''/auth/profile/'' get_options (always (answer 200 ''OK'' None))
     = Inl SyntaxError
   \<and> \<not> is_ApiError SyntaxError
   \<and> request signed_in ''/auth/login/'' (post_options (Some login_data))
         (always (answer 400 ''Bad Request'' (Some JNull)))
       = Inl (ApiError ''Network error or server unavailable'' None)"
  by (simp add: request_def request_try_def always_def answer_def ok_def)

text \<open>
  C9, at a 2xx response whose body is not JSON (for \<open>logout\<close>, the empty body of a
  204): every operation rejects with the \<open>SyntaxError\<close> of \<open>response.json()\<close>, not
  with an \<open>ApiError\<close>, and \<open>logout\<close> keeps the credential.
\<close>

theorem malformed_success_body_at_failing_input:
  "fst (login login_data signed_in (always (answer 200 ''OK'' None))) = Inl SyntaxError
   \<and> fst (register login_data signed_in (always (answer 201 ''Created'' None))) = Inl SyntaxError
   \<and> fst (refreshToken signed_in (always (answer 200 ''OK'' None))) = Inl SyntaxError
   \<and> fst (logout signed_in (always (answer 204 ''No Content'' None))) = Inl SyntaxError
   \<and> fst (getUserProfile signed_in (always (answer 200 ''OK'' None))) = Inl SyntaxError
   \<and> isAuthenticated (snd (logout signed_in (always (answer 204 ''No Content'' None))))"
  by (simp add: login_def register_def refreshToken_def logout_def getUserProfile_def
      store_access_def request_def request_try_def always_def answer_def ok_def
      isAuthenticated_def signed_in_token)

subsection \<open>Login and registration\<close>

lemma store_access_Inr:
  assumes "fst (store_access st result) = Inr response"
  shows "result = Inr response"
    and "get_prop response ''access'' = Inr (accessToken (snd (store_access st result)))"
    and "localStorage (snd (store_access st result)) ''access_token''
           = Some (to_string (accessToken (snd (store_access st result))))"
  using assms
  by (auto simp: store_access_def setAccessToken_def split: sum.splits)

lemma store_access_object:
  "fst (store_access st (Inr (JObj kvs))) = Inr (JObj kvs)"
  by (simp add: store_access_def)

text \<open>
  C3. When \<open>login\<close> or \<open>register\<close> is fulfilled with a response, that response is
  the JSON body of a 2xx answer to the request, the credential held afterwards is
  exactly its \<open>access\<close> property, and the stored \<open>access_token\<close> is that credential
  as a string. Both are fulfilled whenever the server answers 2xx with a JSON object.
\<close>

theorem login_register_store_token:
  "(fst (login data st fetch) = Inr response \<longrightarrow>
      (\<exists>r. fetch (baseUrl st @ ''/auth/login/'') (request_config st (post_options (Some data)))
              = Responded r \<and> ok r \<and> json_body r = Some response)
      \<and> get_prop response ''access'' = Inr (accessToken (snd (login data st fetch)))
      \<and> localStorage (snd (login data st fetch)) ''access_token''
          = Some (to_string (accessToken (snd (login data st fetch)))))
   \<and> (fst (register data st fetch) = Inr response \<longrightarrow>
      (\<exists>r. fetch (baseUrl st @ ''/auth/register/'') (request_config st (post_options (Some data)))
              = Responded r \<and> ok r \<and> json_body r = Some response)
      \<and> get_prop response ''access'' = Inr (accessToken (snd (register data st fetch)))
      \<and> localStorage (snd (register data st fetch)) ''access_token''
          = Some (to_string (accessToken (snd (register data st fetch)))))
   \<and> (\<forall>r kvs. fetch (baseUrl st @ ''/auth/login/'') (request_config st (post_options (Some data)))
              = Responded r \<and> ok r \<and> json_body r = Some (JObj kvs)
          \<longrightarrow> fst (login data st fetch) = Inr (JObj kvs))
   \<and> (\<forall>r kvs. fetch (baseUrl st @ ''/auth/register/'') (request_config st (post_options (Some data)))
              = Responded r \<and> ok r \<and> json_body r = Some (JObj kvs)
          \<longrightarrow> fst (register data st fetch) = Inr (JObj kvs))"
proof (intro conjI allI impI)
  assume a: "fst (login data st fetch) = Inr response"
  then have s: "fst (store_access st (request st ''/auth/login/'' (post_options (Some data)) fetch))
      = Inr response"
    by (simp add: login_def)
  note k = store_access_Inr [OF s]
  show "get_prop response ''access'' = Inr (accessToken (snd (login data st fetch)))"
    unfolding login_def by (rule k(2))
  show "localStorage (snd (login data st fetch)) ''access_token''
          = Some (to_string (accessToken (snd (login data st fetch))))"
    unfolding login_def by (rule k(3))
  note k(1)
  then show "\<exists>r. fetch (baseUrl st @ ''/auth/login/'') (request_config st (post_options (Some data)))
              = Responded r \<and> ok r \<and> json_body r = Some response"
    by (rule request_Inr)
next
  assume a: "fst (register data st fetch) = Inr response"
  then have s: "fst (store_access st (request st ''/auth/register/'' (post_options (Some data)) fetch))
      = Inr response"
    by (simp add: register_def)
  note k = store_access_Inr [OF s]
  show "get_prop response ''access'' = Inr (accessToken (snd (register data st fetch)))"
    unfolding register_def by (rule k(2))
  show "localStorage (snd (register data st fetch)) ''access_token''
          = Some (to_string (accessToken (snd (register data st fetch))))"
    unfolding register_def by (rule k(3))
  note k(1)
  then show "\<exists>r. fetch (baseUrl st @ ''/auth/register/'') (request_config st (post_options (Some data)))
              = Responded r \<and> ok r \<and> json_body r = Some response"
    by (rule request_Inr)
next
  fix r kvs
  assume "fetch (baseUrl st @ ''/auth/login/'') (request_config st (post_options (Some data)))
              = Responded r \<and> ok r \<and> json_body r = Some (JObj kvs)"
  then have "request st ''/auth/login/'' (post_options (Some data)) fetch = Inr (JObj kvs)"
    by (auto intro: request_ok_json)
  then show "fst (login data st fetch) = Inr (JObj kvs)"
    by (simp add: login_def store_access_object)
next
  fix r kvs
  assume "fetch (baseUrl st @ ''/auth/register/'') (request_config st (post_options (Some data)))
              = Responded r \<and> ok r \<and> json_body r = Some (JObj kvs)"
  then have "request st ''/auth/register/'' (post_options (Some data)) fetch = Inr (JObj kvs)"
    by (auto intro: request_ok_json)
  then show "fst (register data st fetch) = Inr (JObj kvs)"
    by (simp add: register_def store_access_object)
qed

theorem login_register_store_token_witness:
  "fst (login login_data (apiClient empty_storage) (always (answer 200 ''OK'' (Some login_response))))
     = Inr login_response
   \<and> accessToken
        (snd (login login_data (apiClient empty_storage)
                (always (answer 200 ''OK'' (Some login_response)))))
       = JStr ''tok456''
   \<and> localStorage
        (snd (login login_data (apiClient empty_storage)
                (always (answer 200 ''OK'' (Some login_response)))))
        ''access_token''
       = Some ''tok456''"
proof -
  let ?st = "apiClient empty_storage"
  let ?fetch = "always (answer 200 ''OK'' (Some login_response))"
  let ?r = "\<lparr>status = 200, statusText = ''OK'', json_body = Some login_response\<rparr>"
  let ?kvs = "[(''access'', JStr ''tok456''),
           (''user'', JObj [(''id'', JNum True ''7''), (''username'', JStr ''al_1''),
                            (''email'', JStr ''a@b.c''), (''first_name'', JStr ''Al''),
                            (''last_name'', JStr [])])]"
  have a: "?fetch (baseUrl ?st @ ''/auth/login/'') (request_config ?st (post_options (Some login_data)))
             = Responded ?r \<and> ok ?r \<and> json_body ?r = Some (JObj ?kvs)"
    by (simp add: always_def answer_def ok_def login_response_def)
  note t = login_register_store_token [of login_data ?st ?fetch login_response]
  from t a have "fst (login login_data ?st ?fetch) = Inr (JObj ?kvs)"
    by blast
  then have f: "fst (login login_data ?st ?fetch) = Inr login_response"
    by (simp add: login_response_def)
  with t have g: "get_prop login_response ''access''
                   = Inr (accessToken (snd (login login_data ?st ?fetch)))"
    and l: "localStorage (snd (login login_data ?st ?fetch)) ''access_token''
          = Some (to_string (accessToken (snd (login login_data ?st ?fetch))))"
    by blast+
  from g have tok: "accessToken (snd (login login_data ?st ?fetch)) = JStr ''tok456''"
    by (simp add: login_response_def)
  from l have "localStorage (snd (login login_data ?st ?fetch)) ''access_token'' = Some ''tok456''"
    unfolding tok by simp
  with f tok show ?thesis by blast
qed

subsection \<open>The credential across a page load\<close>

lemma reload_token:
  "accessToken (new_ApiClient url (localStorage (setAccessToken (JStr t) st))) = JStr t"
  by (simp add: new_ApiClient_def loadTokenFromStorage_def setAccessToken_def)

text \<open>
  C5, amended. After \<open>setAccessToken(t)\<close> and a page load (a new client over the
  storage left behind), the client holds \<open>t\<close> and \<open>isAuthenticated()\<close> is true for
  every string \<open>t\<close>; for every \<open>t\<close> that is not the empty string, the headers of
  every request, whatever its options, have \<open>Authorization: Bearer t\<close>.
\<close>

theorem token_round_trip:
  "isAuthenticated (new_ApiClient url (localStorage (setAccessToken (JStr t) st)))
   \<and> accessToken (new_ApiClient url (localStorage (setAccessToken (JStr t) st))) = JStr t
   \<and> (t \<noteq> [] \<longrightarrow>
        (\<exists>h. headers (request_config
                        (new_ApiClient url (localStorage (setAccessToken (JStr t) st))) options)
               = Some h
            \<and> h ''Authorization'' = Some (''Bearer '' @ t)))"
  by (simp add: isAuthenticated_def reload_token request_config_def request_headers_def)

theorem token_round_trip_witness:
  "isAuthenticated (new_ApiClient API_BASE_URL (localStorage signed_in))
   \<and> (\<exists>h. headers (request_config (new_ApiClient API_BASE_URL (localStorage signed_in))
                     get_options) = Some h
          \<and> h ''Authorization'' = Some ''Bearer tok123'')"
proof -
  have n: "''tok123'' \<noteq> []" by simp
  from token_round_trip [of API_BASE_URL "''tok123''" "apiClient empty_storage" get_options] n
  show ?thesis by (simp add: signed_in_def)
qed

theorem empty_token_round_trip_counterexample:
  "isAuthenticated (new_ApiClient API_BASE_URL (localStorage (setAccessToken (JStr []) signed_in)))
   \<and> request_headers
        (new_ApiClient API_BASE_URL (localStorage (setAccessToken (JStr []) signed_in)))
        get_options ''Authorization'' = None
   \<and> headers (request_config
        (new_ApiClient API_BASE_URL (localStorage (setAccessToken (JStr []) signed_in)))
        get_options)
       = Some (request_headers
        (new_ApiClient API_BASE_URL (localStorage (setAccessToken (JStr []) signed_in)))
        get_options)"
  by (simp add: isAuthenticated_def reload_token request_config_def request_headers_def
      get_options_def)

subsection \<open>The empty token\<close>

text \<open>
  C10. After \<open>setAccessToken("")\<close>, \<open>isAuthenticated()\<close> is true, since the token is
  not \<open>null\<close>, and the requests of the five operations have no \<open>Authorization\<close>
  header, since the empty string is falsy: their headers are \<open>Content-Type\<close> alone.
\<close>

theorem empty_token_disagreement:
  "isAuthenticated (setAccessToken (JStr []) st)
   \<and> request_headers (setAccessToken (JStr []) st) (post_options data) ''Authorization'' = None
   \<and> request_headers (setAccessToken (JStr []) st) get_options ''Authorization'' = None
   \<and> headers (request_config (setAccessToken (JStr []) st) (post_options data))
       = Some [''Content-Type'' \<mapsto> ''application/json'']
   \<and> headers (request_config (setAccessToken (JStr []) st) get_options)
       = Some [''Content-Type'' \<mapsto> ''application/json'']"
  by (simp add: isAuthenticated_def setAccessToken_def request_config_def request_headers_def
      post_options_def get_options_def)

end
